theory Spec2Isabelle
  imports Main "HOL-Library.Sublist"
begin

section \<open>The error classes (src/src/errors.ts)\<close>

text \<open>
  The five classes of errors.ts: \<open>EzEnvError\<close> is the base class and the other four
  extend it, so every value of this type passes \<open>instanceof EzEnvError\<close>. Each carries
  the message given to its constructor.
\<close>

datatype ezenv_error =
    EzEnvError string
  | NetworkError string
  | AuthError string
  | NotFoundError string
  | ValidationError string

text \<open>
  A value caught by the \<open>catch (error: any)\<close> clause of \<open>get\<close>: either an instance of
  the library's classes, or another object, of which the clause reads \<open>name\<close> and
  \<open>message\<close> (each may be undefined).
\<close>

datatype thrown =
    Typed ezenv_error
  | Foreign (err_name: "string option") (err_message: "string option")

section \<open>The declared types (types.ts)\<close>

record EzEnvConfig =
  cfg_apiKey :: string
  cfg_baseUrl :: "string option"

record EzEnvOptions =
  noCache :: "bool option"
  timeout :: "int option"
  override :: "bool option"

text \<open>
  A record of strings keyed by strings: the entries of the object, in the order of
  \<open>Object.entries\<close>. A JavaScript object holds each key once.
\<close>

type_synonym secret_bundle = "(string \<times> string) list"

text \<open>
  The parsed body, read as \<open>SecretsResponse | ErrorResponse\<close>: \<open>get\<close> reads its
  members \<open>error\<close> and \<open>secrets\<close>, and the cast does not check that either is there.
\<close>

record json_body =
  error :: "string option"
  secrets :: "secret_bundle option"

section \<open>The network, as \<open>get\<close> sees it\<close>

text \<open>
  \<open>fetch\<close> rejects with a thrown value or resolves with a response, of which \<open>get\<close>
  reads \<open>ok\<close>, \<open>status\<close> and \<open>json()\<close>; \<open>json()\<close> in turn throws or yields the parsed
  body. Bodies are JSON objects whose \<open>error\<close> member, when there, is a string and whose
  \<open>secrets\<close> member, when there, is an object of strings. Time is not modelled: whether
  the timer fires first is the network's choice between rejecting with an \<open>AbortError\<close>
  and anything else.
\<close>

datatype json_result = JsonThrows thrown | JsonData json_body

record response =
  ok :: bool
  status :: nat
  json :: json_result

datatype fetch_result = Rejected thrown | Resolved response

text \<open>
  The arguments of the one \<open>fetch\<close> call, with the delay given to \<open>setTimeout\<close> for the
  abort of its signal. \<open>body\<close> is the object handed to \<open>JSON.stringify\<close>.
\<close>

record request =
  url :: string
  http_method :: string
  headers :: "(string \<times> string) list"
  body :: "(string \<times> string) list"
  abort_after :: int

type_synonym network = "request \<Rightarrow> fetch_result"

section \<open>The client (src/src/client.ts)\<close>

record EzEnv =
  apiKey :: string
  baseUrl :: string
  cache :: "string \<rightharpoonup> secret_bundle option"

text \<open>JavaScript's \<open>x || d\<close> on an optional string and on an optional number.\<close>

definition or_str :: "string option \<Rightarrow> string \<Rightarrow> string" where
  "or_str x d = (case x of None \<Rightarrow> d | Some s \<Rightarrow> if s = [] then d else s)"

definition or_num :: "int option \<Rightarrow> int \<Rightarrow> int" where
  "or_num x d = (case x of None \<Rightarrow> d | Some n \<Rightarrow> if n = 0 then d else n)"

text \<open>Truthiness of an optional boolean, as in \<open>!options?.noCache\<close>.\<close>

definition truthy :: "bool option \<Rightarrow> bool" where
  "truthy b = (b = Some True)"

text \<open>\<open>options?.field\<close>: undefined when \<open>options\<close> is.\<close>

definition opt_noCache :: "EzEnvOptions option \<Rightarrow> bool option" where
  "opt_noCache options = (case options of None \<Rightarrow> None | Some opts \<Rightarrow> noCache opts)"

definition opt_timeout :: "EzEnvOptions option \<Rightarrow> int option" where
  "opt_timeout options = (case options of None \<Rightarrow> None | Some opts \<Rightarrow> timeout opts)"

definition opt_override :: "EzEnvOptions option \<Rightarrow> bool option" where
  "opt_override options = (case options of None \<Rightarrow> None | Some opts \<Rightarrow> override opts)"

text \<open>The constructor.\<close>

definition new_EzEnv :: "EzEnvConfig \<Rightarrow> ezenv_error + EzEnv" where
  "new_EzEnv config =
     (if cfg_apiKey config = [] then Inl (ValidationError ''API key is required'')
      else if \<not> prefix ''ezenv_'' (cfg_apiKey config)
        then Inl (ValidationError ''Invalid API key format'')
      else Inr \<lparr>apiKey = cfg_apiKey config,
                baseUrl = or_str (cfg_baseUrl config) ''https://ezenv.dev'',
                cache = Map.empty\<rparr>)"

definition createClient :: "string \<Rightarrow> string option \<Rightarrow> ezenv_error + EzEnv" where
  "createClient k u = new_EzEnv \<lparr>cfg_apiKey = k, cfg_baseUrl = u\<rparr>"

text \<open>Line 39: the template string \<open>`${projectName}:${environmentName}`\<close>.\<close>

definition cacheKey :: "string \<Rightarrow> string \<Rightarrow> string" where
  "cacheKey projectName environmentName = projectName @ '':'' @ environmentName"

text \<open>Lines 48 to 64: the timer's delay and the arguments of \<open>fetch\<close>.\<close>

definition mk_request :: "EzEnv \<Rightarrow> string \<Rightarrow> string \<Rightarrow> EzEnvOptions option \<Rightarrow> request" where
  "mk_request c projectName environmentName options =
     \<lparr>url = baseUrl c @ ''/api/v1/secrets'',
      http_method = ''POST'',
      headers = [(''Authorization'', ''Bearer '' @ apiKey c),
                 (''Content-Type'', ''application/json'')],
      body = [(''projectName'', projectName), (''environmentName'', environmentName)],
      abort_after = or_num (opt_timeout options) 30000\<rparr>"

text \<open>Lines 70 to 88: the error thrown for a response that is not ok.\<close>

definition status_error :: "string \<Rightarrow> string \<Rightarrow> nat \<Rightarrow> json_body \<Rightarrow> ezenv_error" where
  "status_error projectName environmentName st d =
     (if st = 401 then AuthError (or_str (error d) ''Invalid API key'')
      else if st = 403 then AuthError (or_str (error d) ''Permission denied'')
      else if st = 404 then
        NotFoundError (or_str (error d)
          (''Project '' @ [CHR 0x22] @ projectName @ [CHR 0x22] @ '' or environment ''
             @ [CHR 0x22] @ environmentName @ [CHR 0x22] @ '' not found''))
      else EzEnvError (or_str (error d) ''Failed to fetch secrets''))"

text \<open>
  Lines 46 to 95: the body of the \<open>try\<close>. It ends with a thrown value, or with the
  \<open>secrets\<close> member of the body, stored in the cache under the key.
\<close>

definition try_block ::
  "network \<Rightarrow> EzEnv \<Rightarrow> string \<Rightarrow> string \<Rightarrow> EzEnvOptions option
     \<Rightarrow> (thrown + secret_bundle option) \<times> EzEnv" where
  "try_block net c projectName environmentName options =
     (case net (mk_request c projectName environmentName options) of
        Rejected th \<Rightarrow> (Inl th, c)
      | Resolved r \<Rightarrow>
          (case json r of
             JsonThrows th \<Rightarrow> (Inl th, c)
           | JsonData d \<Rightarrow>
               if \<not> ok r
               then (Inl (Typed (status_error projectName environmentName (status r) d)), c)
               else (Inr (secrets d),
                     c\<lparr>cache := (cache c)(cacheKey projectName environmentName \<mapsto> secrets d)\<rparr>)))"

text \<open>Lines 96 to 110: the \<open>catch\<close> clause.\<close>

fun catch_clause :: "thrown \<Rightarrow> ezenv_error" where
  "catch_clause (Typed err) = err"
| "catch_clause (Foreign n m) =
     (if n = Some ''AbortError'' then NetworkError ''Request timeout''
      else if m = Some ''Failed to fetch'' then NetworkError ''Failed to connect to EzEnv API''
      else NetworkError (or_str m ''Network error occurred''))"

text \<open>
  \<open>get\<close>: the result (the rejection or the returned value), the client afterwards and
  the requests issued by the call. The two names are strings, as the signature declares,
  so each of the tests of lines 31 and 35 is the test for the empty string.
\<close>

definition get ::
  "network \<Rightarrow> EzEnv \<Rightarrow> string \<Rightarrow> string \<Rightarrow> EzEnvOptions option
     \<Rightarrow> (ezenv_error + secret_bundle option) \<times> EzEnv \<times> request list" where
  "get net c projectName environmentName options =
     (if projectName = [] then (Inl (ValidationError ''Project name is required''), c, [])
      else if environmentName = []
        then (Inl (ValidationError ''Environment name is required''), c, [])
      else if \<not> truthy (opt_noCache options)
              \<and> cacheKey projectName environmentName \<in> dom (cache c)
        then (Inr (the (cache c (cacheKey projectName environmentName))), c, [])
      else
        (case try_block net c projectName environmentName options of
           (Inl th, c') \<Rightarrow>
             (Inl (catch_clause th), c', [mk_request c projectName environmentName options])
         | (Inr b, c') \<Rightarrow>
             (Inr b, c', [mk_request c projectName environmentName options])))"

text \<open>
  \<open>process.env\<close> is an object of the runtime, not of this repository, and the tests put
  a plain object in its place. \<open>load\<close> does two things with it, and both are parameters
  here, over any type \<open>'e\<close> of states of that object:
  \<^item> \<open>is_defined env key\<close> is the test \<open>process.env[key] !== undefined\<close>;
  \<^item> \<open>assign env key value\<close> is the state after \<open>process.env[key] = value\<close>.
  What a test finds and what an assignment stores is the object's business: Node's
  \<open>process.env\<close> hands assignments to \<open>setenv\<close>, which refuses a name that is empty or
  holds \<open>=\<close> and cuts a value at its first NUL, and a lookup on either object also finds
  the names inherited from \<open>Object.prototype\<close>.
\<close>

text \<open>Lines 123 to 128: one round of the \<open>forEach\<close> over the entries.\<close>

fun set_entry ::
  "('e \<Rightarrow> string \<Rightarrow> bool) \<Rightarrow> ('e \<Rightarrow> string \<Rightarrow> string \<Rightarrow> 'e) \<Rightarrow> bool
     \<Rightarrow> 'e \<Rightarrow> string \<times> string \<Rightarrow> 'e" where
  "set_entry is_defined assign ovr env (k, v) =
     (if \<not> ovr \<and> is_defined env k then env else assign env k v)"

text \<open>
  \<open>load\<close>: \<open>get\<close>, then the loop over \<open>Object.entries(secrets)\<close>, which throws a
  TypeError when \<open>secrets\<close> is undefined.
\<close>

definition load ::
  "('e \<Rightarrow> string \<Rightarrow> bool) \<Rightarrow> ('e \<Rightarrow> string \<Rightarrow> string \<Rightarrow> 'e)
     \<Rightarrow> network \<Rightarrow> EzEnv \<Rightarrow> 'e \<Rightarrow> string \<Rightarrow> string \<Rightarrow> EzEnvOptions option
     \<Rightarrow> (thrown + unit) \<times> EzEnv \<times> 'e \<times> request list" where
  "load is_defined assign net c env projectName environmentName options =
     (case get net c projectName environmentName options of
        (Inl err, c', reqs) \<Rightarrow> (Inl (Typed err), c', env, reqs)
      | (Inr None, c', reqs) \<Rightarrow>
          (Inl (Foreign (Some ''TypeError'')
                        (Some ''Cannot convert undefined or null to object'')),
           c', env, reqs)
      | (Inr (Some b), c', reqs) \<Rightarrow>
          (Inr (), c',
           foldl (set_entry is_defined assign (truthy (opt_override options))) env b, reqs))"

definition clearCache :: "EzEnv \<Rightarrow> EzEnv" where
  "clearCache c = c\<lparr>cache := Map.empty\<rparr>"

definition getCacheSize :: "EzEnv \<Rightarrow> nat" where
  "getCacheSize c = card (dom (cache c))"

section \<open>Fixtures of test/client.test.ts\<close>

text \<open>
  The client of the tests (\<open>apiKey: 'ezenv_test123'\<close>, no \<open>baseUrl\<close>), the two ways
  the tests mock \<open>fetch\<close> (\<open>mockResolvedValue\<close> and \<open>mockRejectedValue\<close>), and the
  body \<open>{ secrets: { KEY: 'value' } }\<close> of the caching tests.
\<close>

definition test_client :: EzEnv where
  "test_client =
     \<lparr>apiKey = ''ezenv_test123'', baseUrl = ''https://ezenv.dev'', cache = Map.empty\<rparr>"

definition mock_resolved :: "bool \<Rightarrow> nat \<Rightarrow> json_result \<Rightarrow> network" where
  "mock_resolved b st j = (\<lambda>_. Resolved \<lparr>ok = b, status = st, json = j\<rparr>)"

definition mock_rejected :: "thrown \<Rightarrow> network" where
  "mock_rejected th = (\<lambda>_. Rejected th)"

definition key_value :: json_result where
  "key_value = JsonData \<lparr>error = None, secrets = Some [(''KEY'', ''value'')]\<rparr>"


text \<open>
  The object the tests put in place of \<open>process.env\<close> (\<open>process.env = { ...originalEnv }\<close>):
  a plain object, given by its own properties. A lookup that finds no own property goes on
  to \<open>Object.prototype\<close>, whose twelve names all give a value that is not undefined. An
  assignment creates or updates the own property, except under the name \<open>__proto__\<close>,
  where, unless the object has an own property of that name, the inherited setter takes
  the value and ignores a string.
\<close>

definition object_prototype_names :: "string list" where
  "object_prototype_names =
     [''constructor'', ''hasOwnProperty'', ''isPrototypeOf'', ''propertyIsEnumerable'',
      ''toLocaleString'', ''toString'', ''valueOf'', ''__defineGetter__'',
      ''__defineSetter__'', ''__lookupGetter__'', ''__lookupSetter__'', ''__proto__'']"

definition plain_defined :: "(string \<rightharpoonup> string) \<Rightarrow> string \<Rightarrow> bool" where
  "plain_defined obj k = (obj k \<noteq> None \<or> k \<in> set object_prototype_names)"

definition plain_assign :: "(string \<rightharpoonup> string) \<Rightarrow> string \<Rightarrow> string \<Rightarrow> (string \<rightharpoonup> string)" where
  "plain_assign obj k v = (if k = ''__proto__'' \<and> obj k = None then obj else obj(k \<mapsto> v))"


definition no_secrets :: json_result where
  "no_secrets = JsonData \<lparr>error = None, secrets = None\<rparr>"

section \<open>Facts shared by the proofs\<close>

lemma new_EzEnv_test_client:
  "new_EzEnv \<lparr>cfg_apiKey = ''ezenv_test123'', cfg_baseUrl = None\<rparr> = Inr test_client"
  by (simp add: new_EzEnv_def test_client_def or_str_def)

text \<open>Past the validation and the cache check, \<open>get\<close> is the \<open>try\<close> with its \<open>catch\<close>.\<close>

lemma get_miss:
  assumes "p \<noteq> []" and "e \<noteq> []"
    and "truthy (opt_noCache options) \<or> cacheKey p e \<notin> dom (cache c)"
  shows "get net c p e options =
     (case try_block net c p e options of
        (Inl th, c') \<Rightarrow> (Inl (catch_clause th), c', [mk_request c p e options])
      | (Inr b, c') \<Rightarrow> (Inr b, c', [mk_request c p e options]))"
  using assms by (auto simp: get_def)

text \<open>
  A call that returns a value leaves that value in the cache under the key of its
  arguments: it was there already, or the call has just stored it.
\<close>

lemma get_Inr_cases:
  assumes "get net c p e options = (Inr b, c', reqs)"
  shows "p \<noteq> [] \<and> e \<noteq> [] \<and> cache c' (cacheKey p e) = Some b \<and>
         ((c' = c \<and> reqs = []) \<or>
          (c' = c\<lparr>cache := (cache c)(cacheKey p e \<mapsto> b)\<rparr>
             \<and> reqs = [mk_request c p e options]))"
  using assms
  by (auto simp: get_def try_block_def
           split: if_splits sum.splits prod.splits fetch_result.splits json_result.splits)

text \<open>A failed call returns the client it was given.\<close>

lemma get_Inl_client:
  "isl (fst (get net c p e options)) \<Longrightarrow> fst (snd (get net c p e options)) = c"
  by (auto simp: get_def try_block_def
        split: if_splits sum.splits prod.splits fetch_result.splits json_result.splits)

text \<open>The options, read as the interface declares them.\<close>

lemma truthy_override:
  "truthy (opt_override options) = (\<exists>opts. options = Some opts \<and> override opts = Some True)"
  by (cases options) (auto simp: truthy_def opt_override_def)

lemma truthy_noCache:
  "truthy (opt_noCache options) = (\<exists>opts. options = Some opts \<and> noCache opts = Some True)"
  by (cases options) (auto simp: truthy_def opt_noCache_def)

text \<open>
  The loop of \<open>load\<close>, key by key. \<open>rd\<close> reads the variables off a state of the
  environment object; the facts hold when, for the entries of the bundle, an assignment
  stores its value under its key and nowhere else, and the test finds a key exactly when
  its variable is set.
\<close>

lemma foldl_set_entry_other:
  assumes "\<forall>x. \<forall>(k, v) \<in> set b. \<forall>k'. k' \<noteq> k \<longrightarrow> rd (assign x k v) k' = rd x k'"
    and "k' \<notin> fst ` set b"
  shows "rd (foldl (set_entry is_defined assign ovr) env b) k' = rd env k'"
  using assms
proof (induction b arbitrary: env)
  case Nil
  then show ?case by simp
next
  case (Cons x b)
  obtain k v where x: "x = (k, v)" by (cases x)
  from Cons.prems x have ne: "k' \<noteq> k" by auto
  from Cons.prems(1) x ne have step: "rd (set_entry is_defined assign ovr env x) k' = rd env k'"
    by auto
  from Cons.prems have "rd (foldl (set_entry is_defined assign ovr)
                              (set_entry is_defined assign ovr env x) b) k'
                        = rd (set_entry is_defined assign ovr env x) k'"
    by (intro Cons.IH) auto
  with step show ?case by simp
qed

lemma foldl_set_entry_rule:
  assumes "distinct (map fst b)"
    and "\<forall>x. \<forall>(k, v) \<in> set b. rd (assign x k v) k = Some v"
    and "\<forall>x. \<forall>(k, v) \<in> set b. \<forall>k'. k' \<noteq> k \<longrightarrow> rd (assign x k v) k' = rd x k'"
    and "\<forall>x. \<forall>(k, v) \<in> set b. is_defined x k = (rd x k \<noteq> None)"
    and "(k, v) \<in> set b"
  shows "rd (foldl (set_entry is_defined assign ovr) env b) k
           = (if ovr \<or> rd env k = None then Some v else rd env k)"
  using assms
proof (induction b arbitrary: env)
  case Nil
  then show ?case by simp
next
  case (Cons x b)
  obtain k0 v0 where x: "x = (k0, v0)" by (cases x)
  let ?env = "set_entry is_defined assign ovr env x"
  have frame: "\<forall>y. \<forall>(k, v) \<in> set b. \<forall>k'. k' \<noteq> k \<longrightarrow> rd (assign y k v) k' = rd y k'"
    using Cons.prems(3) by auto
  show ?case
  proof (cases "(k, v) = x")
    case True
    with Cons.prems(1) x have "k \<notin> fst ` set b" by force
    with frame have "rd (foldl (set_entry is_defined assign ovr) ?env b) k = rd ?env k"
      by (rule foldl_set_entry_other)
    moreover from True x Cons.prems(2,4)
    have "rd ?env k = (if ovr \<or> rd env k = None then Some v else rd env k)"
      by auto
    ultimately show ?thesis by simp
  next
    case False
    with Cons.prems(1,5) x have in_b: "(k, v) \<in> set b" and ne: "k \<noteq> k0" by force+
    from Cons.prems(3) x ne have same: "rd ?env k = rd env k" by auto
    from Cons.prems in_b
    have "rd (foldl (set_entry is_defined assign ovr) ?env b) k
            = (if ovr \<or> rd ?env k = None then Some v else rd ?env k)"
      by (intro Cons.IH) auto
    with same show ?thesis by (cases ovr) simp_all
  qed
qed

lemma load_success:
  assumes "fst (get net c p e options) = Inr (Some b)"
  shows "fst (load is_defined assign net c env p e options) = Inr ()"
    and "fst (snd (snd (load is_defined assign net c env p e options)))
           = foldl (set_entry is_defined assign (truthy (opt_override options))) env b"
  using assms by (auto simp: load_def split: prod.splits sum.splits option.splits)


section \<open>Validation comes first\<close>

text \<open>
  C8. When the project name or the environment name is the empty string, \<open>get\<close> fails
  with a ValidationError whose message names the missing field (the project when both
  are missing); the client, and so its cache, is returned as it was, and no request has
  been issued.
\<close>

theorem get_empty_name_fails_fast:
  "projectName = [] \<or> environmentName = [] \<Longrightarrow>
   get net c projectName environmentName options =
     (Inl (ValidationError (if projectName = [] then ''Project name is required''
                            else ''Environment name is required'')), c, [])"
  by (auto simp: get_def)

theorem get_empty_name_fails_fast_witness:
  "(([]::string) = [] \<or> ''production'' = []) \<and>
   get (mock_rejected (Foreign None None)) test_client [] ''production'' None =
     (Inl (ValidationError ''Project name is required''), test_client, [])"
  using get_empty_name_fails_fast
          [of "[]" "''production''" "mock_rejected (Foreign None None)" test_client None]
  by simp

section \<open>The cache\<close>

text \<open>
  C1, at the pairs \<open>("a:b", "c")\<close> and \<open>("a", "b:c")\<close>. Both build the key \<open>a:b:c\<close>.
  On the client left by a successful \<open>get\<close> for the first pair, a \<open>get\<close> for the
  second pair, which has never been fetched, returns the bundle of the first from the
  cache and issues no request (the network given to it would have rejected).
\<close>

theorem cacheKey_collision:
  "get (mock_rejected (Foreign None None))
       (fst (snd (get (mock_resolved True 200 key_value) test_client ''a:b'' ''c'' None)))
       ''a'' ''b:c'' None
   = (Inr (Some [(''KEY'', ''value'')]),
      test_client\<lparr>cache := [''a:b:c'' \<mapsto> Some [(''KEY'', ''value'')]]\<rparr>, [])"
  by (simp add: get_def try_block_def mock_resolved_def key_value_def test_client_def
        cacheKey_def truthy_def opt_noCache_def)

text \<open>
  C4. After a \<open>get\<close> for a pair has returned a value, a second \<open>get\<close> for the same pair
  whose \<open>noCache\<close> option is not set returns the same value, whatever the network would
  answer, issues no request and returns the client unchanged, so the size of the cache
  stays what it was; that size is 1 when the first call started from an empty cache.
\<close>

theorem get_second_call_cached:
  assumes "get net c p e options = (Inr b, c', reqs)"
    and "\<not> truthy (opt_noCache options')"
  shows "get net' c' p e options' = (Inr b, c', [])
         \<and> (cache c = Map.empty \<longrightarrow> getCacheSize c' = 1)"
proof -
  from get_Inr_cases [OF assms(1)]
  have ne: "p \<noteq> []" "e \<noteq> []" and hit: "cache c' (cacheKey p e) = Some b"
    and upd: "(c' = c \<and> reqs = []) \<or>
          (c' = c\<lparr>cache := (cache c)(cacheKey p e \<mapsto> b)\<rparr>
             \<and> reqs = [mk_request c p e options])"
    by simp_all
  from ne hit assms(2) have "get net' c' p e options' = (Inr b, c', [])"
    by (auto simp: get_def)
  moreover have "getCacheSize c' = 1" if "cache c = Map.empty"
    using upd hit that by (auto simp: getCacheSize_def)
  ultimately show ?thesis by simp
qed

theorem get_second_call_cached_witness:
  "get (mock_resolved True 200 key_value) test_client ''project'' ''env'' None =
     (Inr (Some [(''KEY'', ''value'')]),
      test_client\<lparr>cache := [''project:env'' \<mapsto> Some [(''KEY'', ''value'')]]\<rparr>,
      [mk_request test_client ''project'' ''env'' None])
   \<and> \<not> truthy (opt_noCache None)
   \<and> cache test_client = Map.empty
   \<and> get (mock_rejected (Foreign None None))
        (test_client\<lparr>cache := [''project:env'' \<mapsto> Some [(''KEY'', ''value'')]]\<rparr>)
        ''project'' ''env'' None =
     (Inr (Some [(''KEY'', ''value'')]),
      test_client\<lparr>cache := [''project:env'' \<mapsto> Some [(''KEY'', ''value'')]]\<rparr>, [])
   \<and> getCacheSize
        (test_client\<lparr>cache := [''project:env'' \<mapsto> Some [(''KEY'', ''value'')]]\<rparr>) = 1"
proof -
  have first: "get (mock_resolved True 200 key_value) test_client ''project'' ''env'' None =
     (Inr (Some [(''KEY'', ''value'')]),
      test_client\<lparr>cache := [''project:env'' \<mapsto> Some [(''KEY'', ''value'')]]\<rparr>,
      [mk_request test_client ''project'' ''env'' None])"
    by (simp add: get_def try_block_def mock_resolved_def key_value_def test_client_def
          cacheKey_def truthy_def opt_noCache_def)
  have no_bypass: "\<not> truthy (opt_noCache None)"
    by (simp add: truthy_def opt_noCache_def)
  have fresh: "cache test_client = Map.empty"
    by (simp add: test_client_def)
  from get_second_call_cached [OF first no_bypass, of "mock_rejected (Foreign None None)"]
    first no_bypass fresh
  show ?thesis by simp
qed

text \<open>
  C5. For a pair whose key is in the cache, a \<open>get\<close> with \<open>noCache: true\<close> issues its
  request all the same; when the response is ok and its body parses, the call returns the
  \<open>secrets\<close> of that body and the cache holds them under the key in place of the entry
  that was there.
\<close>

theorem get_noCache_refetches:
  assumes "p \<noteq> []" and "e \<noteq> []"
    and "opt_noCache options = Some True"
    and "cacheKey p e \<in> dom (cache c)"
  shows "snd (snd (get net c p e options)) = [mk_request c p e options]
    \<and> (net (mk_request c p e options) = Resolved r \<and> ok r \<and> json r = JsonData d \<longrightarrow>
         get net c p e options =
           (Inr (secrets d), c\<lparr>cache := (cache c)(cacheKey p e \<mapsto> secrets d)\<rparr>,
            [mk_request c p e options]))"
proof -
  from assms(3) have "truthy (opt_noCache options)" by (simp add: truthy_def)
  with assms(1,2) have eq: "get net c p e options =
     (case try_block net c p e options of
        (Inl th, c') \<Rightarrow> (Inl (catch_clause th), c', [mk_request c p e options])
      | (Inr b, c') \<Rightarrow> (Inr b, c', [mk_request c p e options]))"
    by (intro get_miss) simp_all
  show ?thesis
    unfolding eq
    by (auto simp: try_block_def
          split: sum.splits prod.splits fetch_result.splits json_result.splits)
qed

theorem get_noCache_refetches_witness:
  "''project'' \<noteq> [] \<and> ''env'' \<noteq> []
   \<and> opt_noCache (Some \<lparr>noCache = Some True, timeout = None, override = None\<rparr>) = Some True
   \<and> cacheKey ''project'' ''env''
        \<in> dom (cache (test_client\<lparr>cache := [''project:env'' \<mapsto> Some [(''KEY'', ''stale'')]]\<rparr>))
   \<and> get (mock_resolved True 200 key_value)
        (test_client\<lparr>cache := [''project:env'' \<mapsto> Some [(''KEY'', ''stale'')]]\<rparr>)
        ''project'' ''env'' (Some \<lparr>noCache = Some True, timeout = None, override = None\<rparr>)
     = (Inr (Some [(''KEY'', ''value'')]),
        test_client\<lparr>cache := [''project:env'' \<mapsto> Some [(''KEY'', ''value'')]]\<rparr>,
        [mk_request test_client ''project'' ''env''
           (Some \<lparr>noCache = Some True, timeout = None, override = None\<rparr>)])"
proof -
  let ?c = "test_client\<lparr>cache := [''project:env'' \<mapsto> Some [(''KEY'', ''stale'')]]\<rparr>"
  let ?o = "Some \<lparr>noCache = Some True, timeout = None, override = None\<rparr>"
  let ?r = "\<lparr>ok = True, status = 200, json = key_value\<rparr>"
  let ?d = "\<lparr>error = None, secrets = Some [(''KEY'', ''value'')]\<rparr>"
  have h1: "''project'' \<noteq> []" and h2: "''env'' \<noteq> []" by simp_all
  have h3: "opt_noCache ?o = Some True" by (simp add: opt_noCache_def)
  have h4: "cacheKey ''project'' ''env'' \<in> dom (cache ?c)" by (simp add: cacheKey_def)
  have h5: "mock_resolved True 200 key_value (mk_request ?c ''project'' ''env'' ?o) = Resolved ?r
     \<and> ok ?r \<and> json ?r = JsonData ?d"
    by (simp add: mock_resolved_def key_value_def)
  from get_noCache_refetches [OF h1 h2 h3 h4, of "mock_resolved True 200 key_value" ?r ?d]
    h1 h2 h3 h4 h5
  show ?thesis by (simp add: mk_request_def test_client_def)
qed

section \<open>The timer\<close>

text \<open>
  C10. With the option \<open>timeout: 0\<close>, \<open>get\<close> does in every respect what it does with
  the option left out, and each request it issues has its abort timer armed with 30000
  milliseconds, not 0. (What the timer then does in time is outside this model.)
\<close>

theorem get_timeout_zero_is_default:
  "timeout opts = Some 0 \<Longrightarrow>
   get net c p e (Some opts) = get net c p e (Some (opts\<lparr>timeout := None\<rparr>))
   \<and> (\<forall>req \<in> set (snd (snd (get net c p e (Some opts)))). abort_after req = 30000)"
  by (auto simp: get_def try_block_def mk_request_def opt_timeout_def opt_noCache_def or_num_def
           split: sum.splits prod.splits fetch_result.splits json_result.splits)

theorem get_timeout_zero_is_default_witness:
  "timeout \<lparr>noCache = None, timeout = Some 0, override = None\<rparr> = Some 0 \<and>
   map abort_after
     (snd (snd (get (mock_resolved True 200 key_value) test_client ''project'' ''env''
        (Some \<lparr>noCache = None, timeout = Some 0, override = None\<rparr>)))) = [30000]"
  using get_timeout_zero_is_default
     [of "\<lparr>noCache = None, timeout = Some 0, override = None\<rparr>"
         "mock_resolved True 200 key_value" test_client "''project''" "''env''"]
  by (simp add: get_def try_block_def mk_request_def opt_timeout_def opt_noCache_def or_num_def
       truthy_def test_client_def mock_resolved_def key_value_def cacheKey_def)

section \<open>Failures\<close>

text \<open>
  C2, as stated, at a 401 response whose body is not JSON: \<open>response.json()\<close> throws
  its SyntaxError before the status is looked at, the \<open>catch\<close> clause wraps it, and the
  call fails with a NetworkError, not with an AuthError.
\<close>

theorem status_401_unparsable_body_counterexample:
  "get (mock_resolved False 401
          (JsonThrows (Foreign (Some ''SyntaxError'') (Some ''Unexpected end of JSON input''))))
       test_client ''project'' ''env'' None
   = (Inl (NetworkError ''Unexpected end of JSON input''), test_client,
      [mk_request test_client ''project'' ''env'' None])"
  by (simp add: get_def try_block_def mock_resolved_def test_client_def
        cacheKey_def truthy_def opt_noCache_def or_str_def)

text \<open>
  C2, amended. For every call that reaches the network and receives a response that is
  not ok and whose body parses: status 401 fails with AuthError and status 403 with
  AuthError, status 404 with NotFoundError, any other status with the base EzEnvError;
  the message is the \<open>error\<close> member of the body, or, when that member is missing or
  empty, \<open>Invalid API key\<close>, \<open>Permission denied\<close>, a sentence naming the project and
  the environment, and \<open>Failed to fetch secrets\<close> respectively. The client is returned
  unchanged.
\<close>

theorem get_status_errors:
  assumes "p \<noteq> []" and "e \<noteq> []"
    and "truthy (opt_noCache options) \<or> cacheKey p e \<notin> dom (cache c)"
    and "net (mk_request c p e options) = Resolved r"
    and "\<not> ok r"
    and "json r = JsonData d"
  shows "get net c p e options =
     (let msg = (\<lambda>dflt. case error d of None \<Rightarrow> dflt | Some s \<Rightarrow> if s = [] then dflt else s) in
      (Inl (if status r = 401 then AuthError (msg ''Invalid API key'')
            else if status r = 403 then AuthError (msg ''Permission denied'')
            else if status r = 404 then
              NotFoundError (msg (''Project '' @ [CHR 0x22] @ p @ [CHR 0x22]
                 @ '' or environment '' @ [CHR 0x22] @ e @ [CHR 0x22] @ '' not found''))
            else EzEnvError (msg ''Failed to fetch secrets'')),
       c, [mk_request c p e options]))"
  unfolding get_miss [OF assms(1-3)]
  using assms(4-6)
  by (simp add: try_block_def status_error_def or_str_def split: option.splits)

theorem get_status_errors_witness:
  "''project'' \<noteq> [] \<and> ''env'' \<noteq> []
   \<and> (truthy (opt_noCache None) \<or> cacheKey ''project'' ''env'' \<notin> dom (cache test_client))
   \<and> \<not> ok \<lparr>ok = False, status = 404, json = JsonData \<lparr>error = None, secrets = None\<rparr>\<rparr>
   \<and> get (mock_resolved False 404 (JsonData \<lparr>error = None, secrets = None\<rparr>))
          test_client ''project'' ''env'' None
      = (Inl (NotFoundError (''Project '' @ [CHR 0x22] @ ''project'' @ [CHR 0x22]
                 @ '' or environment '' @ [CHR 0x22] @ ''env'' @ [CHR 0x22] @ '' not found'')),
         test_client, [mk_request test_client ''project'' ''env'' None])
   \<and> get (mock_resolved False 403 (JsonData \<lparr>error = Some ''Key revoked'', secrets = None\<rparr>))
          test_client ''project'' ''env'' None
      = (Inl (AuthError ''Key revoked''),
         test_client, [mk_request test_client ''project'' ''env'' None])"
proof -
  let ?d = "\<lparr>error = None, secrets = None\<rparr>"
  let ?r = "\<lparr>ok = False, status = 404, json = JsonData ?d\<rparr>"
  let ?d' = "\<lparr>error = Some ''Key revoked'', secrets = None\<rparr>"
  let ?r' = "\<lparr>ok = False, status = 403, json = JsonData ?d'\<rparr>"
  have h1: "''project'' \<noteq> []" and h2: "''env'' \<noteq> []" by simp_all
  have h3: "truthy (opt_noCache None) \<or> cacheKey ''project'' ''env'' \<notin> dom (cache test_client)"
    by (simp add: test_client_def)
  have h4: "mock_resolved False 404 (JsonData ?d) (mk_request test_client ''project'' ''env'' None)
              = Resolved ?r"
    by (simp add: mock_resolved_def)
  have h4': "mock_resolved False 403 (JsonData ?d') (mk_request test_client ''project'' ''env'' None)
              = Resolved ?r'"
    by (simp add: mock_resolved_def)
  have h5: "\<not> ok ?r" and h5': "\<not> ok ?r'" by simp_all
  have h6: "json ?r = JsonData ?d" and h6': "json ?r' = JsonData ?d'" by simp_all
  from get_status_errors [where net = "mock_resolved False 404 (JsonData ?d)", OF h1 h2 h3 h4 h5 h6]
    get_status_errors [where net = "mock_resolved False 403 (JsonData ?d')", OF h1 h2 h3 h4' h5' h6']
    h1 h2 h3 h5
  show ?thesis by simp
qed

text \<open>
  C3, as stated, at a transport failure that is not an abort (its name is \<open>Error\<close>) and
  whose own message is \<open>Request timeout\<close>: the \<open>catch\<close> clause passes the message on,
  and the outcome is the NetworkError that an abort gives. The two are not told apart by
  message.
\<close>

theorem transport_failure_message_counterexample:
  "fst (get (mock_rejected (Foreign (Some ''Error'') (Some ''Request timeout'')))
          test_client ''project'' ''env'' None) = Inl (NetworkError ''Request timeout'')
   \<and> fst (get (mock_rejected (Foreign (Some ''AbortError'') (Some ''This operation was aborted'')))
          test_client ''project'' ''env'' None) = Inl (NetworkError ''Request timeout'')"
  by (simp add: get_def try_block_def mock_rejected_def test_client_def
        cacheKey_def truthy_def opt_noCache_def or_str_def)

text \<open>
  C3, amended. For every call whose \<open>fetch\<close> rejects with an object that is not one of
  the library's errors: when its name is \<open>AbortError\<close> the call fails with NetworkError
  \<open>Request timeout\<close>; otherwise it fails with NetworkError carrying
  \<open>Failed to connect to EzEnv API\<close> when the object's message is \<open>Failed to fetch\<close>,
  and else the object's own message (\<open>Network error occurred\<close> when it has none or an
  empty one); this differs from the timeout outcome unless the object's own message is
  \<open>Request timeout\<close>. The client is returned unchanged.
\<close>

theorem get_transport_failure:
  assumes "p \<noteq> []" and "e \<noteq> []"
    and "truthy (opt_noCache options) \<or> cacheKey p e \<notin> dom (cache c)"
    and "net (mk_request c p e options) = Rejected (Foreign n m)"
  shows "(n = Some ''AbortError'' \<longrightarrow>
            get net c p e options =
              (Inl (NetworkError ''Request timeout''), c, [mk_request c p e options]))
       \<and> (n \<noteq> Some ''AbortError'' \<longrightarrow>
            get net c p e options =
              (Inl (NetworkError
                 (if m = Some ''Failed to fetch'' then ''Failed to connect to EzEnv API''
                  else case m of None \<Rightarrow> ''Network error occurred''
                       | Some s \<Rightarrow> if s = [] then ''Network error occurred'' else s)),
               c, [mk_request c p e options])
            \<and> (m \<noteq> Some ''Request timeout'' \<longrightarrow>
                 fst (get net c p e options) \<noteq> Inl (NetworkError ''Request timeout'')))"
  unfolding get_miss [OF assms(1-3)]
  using assms(4) by (auto simp: try_block_def or_str_def split: option.splits)

theorem get_transport_failure_witness:
  "''project'' \<noteq> [] \<and> ''env'' \<noteq> []
   \<and> (truthy (opt_noCache None) \<or> cacheKey ''project'' ''env'' \<notin> dom (cache test_client))
   \<and> get (mock_rejected (Foreign (Some ''AbortError'') (Some ''AbortError'')))
          test_client ''project'' ''env'' None
      = (Inl (NetworkError ''Request timeout''), test_client,
         [mk_request test_client ''project'' ''env'' None])
   \<and> Some ''Error'' \<noteq> Some ''AbortError'' \<and> Some ''Failed to fetch'' \<noteq> Some ''Request timeout''
   \<and> get (mock_rejected (Foreign (Some ''Error'') (Some ''Failed to fetch'')))
          test_client ''project'' ''env'' None
      = (Inl (NetworkError ''Failed to connect to EzEnv API''), test_client,
         [mk_request test_client ''project'' ''env'' None])"
proof -
  have h1: "''project'' \<noteq> []" and h2: "''env'' \<noteq> []" by simp_all
  have h3: "truthy (opt_noCache None) \<or> cacheKey ''project'' ''env'' \<notin> dom (cache test_client)"
    by (simp add: test_client_def)
  have h4: "mock_rejected (Foreign (Some ''AbortError'') (Some ''AbortError''))
              (mk_request test_client ''project'' ''env'' None)
            = Rejected (Foreign (Some ''AbortError'') (Some ''AbortError''))"
    and h4': "mock_rejected (Foreign (Some ''Error'') (Some ''Failed to fetch''))
              (mk_request test_client ''project'' ''env'' None)
            = Rejected (Foreign (Some ''Error'') (Some ''Failed to fetch''))"
    by (simp_all add: mock_rejected_def)
  from get_transport_failure
         [where net = "mock_rejected (Foreign (Some ''AbortError'') (Some ''AbortError''))",
          OF h1 h2 h3 h4]
    get_transport_failure
         [where net = "mock_rejected (Foreign (Some ''Error'') (Some ''Failed to fetch''))",
          OF h1 h2 h3 h4']
    h1 h2 h3
  show ?thesis by simp
qed

text \<open>
  C9, as stated, at a response (ok, status 200) whose \<open>json()\<close> rejects with a TypeError
  of message \<open>Failed to fetch\<close>, and at one whose \<open>json()\<close> rejects with an object named
  \<open>AbortError\<close>: the NetworkError carries \<open>Failed to connect to EzEnv API\<close> and
  \<open>Request timeout\<close>, not the message of the failure.
\<close>

theorem response_failure_message_counterexample:
  "fst (get (mock_resolved True 200
               (JsonThrows (Foreign (Some ''TypeError'') (Some ''Failed to fetch''))))
          test_client ''project'' ''env'' None)
     = Inl (NetworkError ''Failed to connect to EzEnv API'')
   \<and> fst (get (mock_resolved True 200
               (JsonThrows (Foreign (Some ''AbortError'') (Some ''The operation was aborted''))))
          test_client ''project'' ''env'' None)
     = Inl (NetworkError ''Request timeout'')"
  by (simp add: get_def try_block_def mock_resolved_def test_client_def
        cacheKey_def truthy_def opt_noCache_def or_str_def)

text \<open>
  C9, amended. For every call whose response has arrived and whose \<open>json()\<close> throws an
  object that is not one of the library's errors, whatever the status: the call fails with
  NetworkError carrying the object's message, or \<open>Network error occurred\<close> when it has
  none or an empty one, except that an object named \<open>AbortError\<close> gives
  \<open>Request timeout\<close> and an object whose message is \<open>Failed to fetch\<close> gives
  \<open>Failed to connect to EzEnv API\<close>. The client is returned unchanged.
\<close>

theorem get_response_failure:
  assumes "p \<noteq> []" and "e \<noteq> []"
    and "truthy (opt_noCache options) \<or> cacheKey p e \<notin> dom (cache c)"
    and "net (mk_request c p e options) = Resolved r"
    and "json r = JsonThrows (Foreign n m)"
  shows "get net c p e options =
     (Inl (NetworkError
        (if n = Some ''AbortError'' then ''Request timeout''
         else if m = Some ''Failed to fetch'' then ''Failed to connect to EzEnv API''
         else case m of None \<Rightarrow> ''Network error occurred''
              | Some s \<Rightarrow> if s = [] then ''Network error occurred'' else s)),
      c, [mk_request c p e options])"
  unfolding get_miss [OF assms(1-3)]
  using assms(4,5) by (simp add: try_block_def or_str_def split: option.splits)

theorem get_response_failure_witness:
  "''project'' \<noteq> [] \<and> ''env'' \<noteq> []
   \<and> (truthy (opt_noCache None) \<or> cacheKey ''project'' ''env'' \<notin> dom (cache test_client))
   \<and> get (mock_resolved True 200
             (JsonThrows (Foreign (Some ''SyntaxError'') (Some ''Unexpected end of JSON input''))))
          test_client ''project'' ''env'' None
      = (Inl (NetworkError ''Unexpected end of JSON input''), test_client,
         [mk_request test_client ''project'' ''env'' None])"
proof -
  let ?j = "JsonThrows (Foreign (Some ''SyntaxError'') (Some ''Unexpected end of JSON input''))"
  let ?r = "\<lparr>ok = True, status = 200, json = ?j\<rparr>"
  have h1: "''project'' \<noteq> []" and h2: "''env'' \<noteq> []" by simp_all
  have h3: "truthy (opt_noCache None) \<or> cacheKey ''project'' ''env'' \<notin> dom (cache test_client)"
    by (simp add: test_client_def)
  have h4: "mock_resolved True 200 ?j (mk_request test_client ''project'' ''env'' None) = Resolved ?r"
    by (simp add: mock_resolved_def)
  have h5: "json ?r = ?j" by simp
  from get_response_failure [where net = "mock_resolved True 200 ?j", OF h1 h2 h3 h4 h5] h1 h2 h3
  show ?thesis by simp
qed

section \<open>Loading into the process environment\<close>




text \<open>
  C7, as stated, at a response that is ok and whose body has no \<open>secrets\<close> member:
  \<open>get\<close> neither fails nor returns a bundle; it returns undefined and stores it in the
  cache.
\<close>

theorem get_no_secrets_counterexample:
  "get (mock_resolved True 200 no_secrets) test_client ''project'' ''env'' None
     = (Inr None, test_client\<lparr>cache := [''project:env'' \<mapsto> None]\<rparr>,
        [mk_request test_client ''project'' ''env'' None])"
  by (simp add: get_def try_block_def mock_resolved_def no_secrets_def test_client_def
        cacheKey_def truthy_def opt_noCache_def)

text \<open>
  C7, amended. A \<open>load\<close> ends in one of three ways. Either \<open>get\<close> returned a bundle:
  then \<open>load\<close> succeeds, the environment is the result of the loop over all the entries,
  and (each key once, on an environment object as in C6) every entry is applied by the
  override rule. Or \<open>get\<close> failed: then \<open>load\<close> fails with the same error and the
  environment is what it was. Or \<open>get\<close> returned undefined: then \<open>load\<close> fails and the
  environment is what it was. And \<open>get\<close> itself ends in one of three ways: it fails, and
  the client, so the cache, is what it was; or it returns the cached entry, whole, with no
  request and the client unchanged; or it returns the \<open>secrets\<close> member of the body of an
  ok response, whole, and has stored exactly that under the key. That member is undefined
  when the body has none.
\<close>

theorem load_all_or_nothing:
  "((\<exists>b. fst (get net c p e options) = Inr (Some b)
        \<and> fst (load is_defined assign net c env p e options) = Inr ()
        \<and> fst (snd (snd (load is_defined assign net c env p e options)))
            = foldl (set_entry is_defined assign (truthy (opt_override options))) env b
        \<and> (distinct (map fst b)
             \<and> (\<forall>x. \<forall>(k, v) \<in> set b. rd (assign x k v) k = Some v)
             \<and> (\<forall>x. \<forall>(k, v) \<in> set b. \<forall>k'. k' \<noteq> k \<longrightarrow> rd (assign x k v) k' = rd x k')
             \<and> (\<forall>x. \<forall>(k, v) \<in> set b. is_defined x k = (rd x k \<noteq> None))
             \<longrightarrow>
             (\<forall>(k, v) \<in> set b.
                rd (fst (snd (snd (load is_defined assign net c env p e options)))) k =
                  (if (\<exists>opts. options = Some opts \<and> override opts = Some True)
                      \<or> rd env k = None
                   then Some v else rd env k))))
    \<or> (\<exists>err. fst (get net c p e options) = Inl err
        \<and> fst (load is_defined assign net c env p e options) = Inl (Typed err)
        \<and> fst (snd (snd (load is_defined assign net c env p e options))) = env)
    \<or> (fst (get net c p e options) = Inr None
        \<and> isl (fst (load is_defined assign net c env p e options))
        \<and> fst (snd (snd (load is_defined assign net c env p e options))) = env))
   \<and> ((isl (fst (get net c p e options)) \<and> fst (snd (get net c p e options)) = c)
       \<or> (\<exists>v. cache c (cacheKey p e) = Some v
             \<and> \<not> (\<exists>opts. options = Some opts \<and> noCache opts = Some True)
             \<and> get net c p e options = (Inr v, c, []))
       \<or> (\<exists>r d. net (mk_request c p e options) = Resolved r \<and> ok r \<and> json r = JsonData d
             \<and> get net c p e options =
                 (Inr (secrets d), c\<lparr>cache := (cache c)(cacheKey p e \<mapsto> secrets d)\<rparr>,
                  [mk_request c p e options])))"
  (is "?load_part \<and> ?get_part")
proof
  show ?get_part
    unfolding truthy_noCache [symmetric]
    by (auto simp: get_def try_block_def
          split: if_splits sum.splits prod.splits fetch_result.splits json_result.splits)
  show ?load_part
  proof (cases "fst (get net c p e options)")
    case (Inl err)
    then show ?thesis
      by (auto simp: load_def split: prod.splits sum.splits option.splits)
  next
    case (Inr v)
    show ?thesis
    proof (cases v)
      case None
      with Inr show ?thesis
        by (auto simp: load_def split: prod.splits sum.splits option.splits)
    next
      case (Some b)
      with Inr have got: "fst (get net c p e options) = Inr (Some b)" by simp
      let ?ovr = "truthy (opt_override options)"
      have "rd (foldl (set_entry is_defined assign ?ovr) env b) k
              = (if ?ovr \<or> rd env k = None then Some v else rd env k)"
        if "distinct (map fst b)"
          and "\<forall>x. \<forall>(k, v) \<in> set b. rd (assign x k v) k = Some v"
          and "\<forall>x. \<forall>(k, v) \<in> set b. \<forall>k'. k' \<noteq> k \<longrightarrow> rd (assign x k v) k' = rd x k'"
          and "\<forall>x. \<forall>(k, v) \<in> set b. is_defined x k = (rd x k \<noteq> None)"
          and "(k, v) \<in> set b" for k v
        using that by (rule foldl_set_entry_rule)
      with got load_success [OF got, of is_defined assign env] show ?thesis
        by (auto simp: truthy_override)
    qed
  qed
qed

theorem load_all_or_nothing_witness:
  "distinct (map fst [(''KEY'', ''value'')])
   \<and> ''KEY'' \<notin> set object_prototype_names
   \<and> get (mock_resolved True 200 key_value) test_client ''project'' ''env'' None
       = (Inr (Some [(''KEY'', ''value'')]),
          test_client\<lparr>cache := [''project:env'' \<mapsto> Some [(''KEY'', ''value'')]]\<rparr>,
          [mk_request test_client ''project'' ''env'' None])
   \<and> load plain_defined plain_assign (mock_resolved True 200 key_value) test_client
          [''HOME'' \<mapsto> ''/root''] ''project'' ''env'' None
       = (Inr (),
          test_client\<lparr>cache := [''project:env'' \<mapsto> Some [(''KEY'', ''value'')]]\<rparr>,
          [''HOME'' \<mapsto> ''/root'', ''KEY'' \<mapsto> ''value''],
          [mk_request test_client ''project'' ''env'' None])
   \<and> load plain_defined plain_assign
          (mock_resolved False 401 (JsonData \<lparr>error = Some ''Invalid API key'', secrets = None\<rparr>))
          test_client [''KEY'' \<mapsto> ''old'', ''HOME'' \<mapsto> ''/root''] ''project'' ''env''
          (Some \<lparr>noCache = None, timeout = None, override = Some True\<rparr>)
       = (Inl (Typed (AuthError ''Invalid API key'')), test_client,
          [''KEY'' \<mapsto> ''old'', ''HOME'' \<mapsto> ''/root''],
          [mk_request test_client ''project'' ''env''
             (Some \<lparr>noCache = None, timeout = None, override = Some True\<rparr>)])"
  using load_all_or_nothing
          [where net = "mock_resolved True 200 key_value" and c = test_client
             and p = "''project''" and e = "''env''" and options = None
             and is_defined = plain_defined and assign = plain_assign
             and env = "[''HOME'' \<mapsto> ''/root'']"
             and rd = "\<lambda>obj :: string \<rightharpoonup> string. obj"]
    load_all_or_nothing
          [where net = "mock_resolved False 401
                          (JsonData \<lparr>error = Some ''Invalid API key'', secrets = None\<rparr>)"
             and c = test_client and p = "''project''" and e = "''env''"
             and options = "Some \<lparr>noCache = None, timeout = None, override = Some True\<rparr>"
             and is_defined = plain_defined and assign = plain_assign
             and env = "[''KEY'' \<mapsto> ''old'', ''HOME'' \<mapsto> ''/root'']"
             and rd = "\<lambda>obj :: string \<rightharpoonup> string. obj"]
  by (simp add: load_def get_def try_block_def mock_resolved_def key_value_def
        test_client_def cacheKey_def truthy_def opt_noCache_def opt_override_def
        status_error_def or_str_def plain_defined_def plain_assign_def
        object_prototype_names_def mk_request_def)

end
